theory Spec2Isabelle
  imports Main
begin

section \<open>The remote shell: client and server\<close>

text \<open>
  The repository is a remote shell over mutually authenticated TLS, in Go: a client
  (\<^verbatim>\<open>client/client.go\<close>) that sends one command per line and prints the reply, and a
  server (\<^verbatim>\<open>server/server.go\<close>) that runs each line and streams the standard output
  back, framed by the marker lines \<^verbatim>\<open>EOF\<close> and \<^verbatim>\<open>TERMINATE\<close>. Strings are byte lists;
  the line terminator is the byte 10, written \<open>\<newline>\<close> inside literals.
\<close>

subsection \<open>Client: reading one response (\<^verbatim>\<open>ReceiveResponse\<close>)\<close>

text \<open>
  How a read from the connection ends once the bytes that arrived are used up: the peer
  closed the stream (\<^verbatim>\<open>io.EOF\<close>), the read failed with another error, or the stream is
  still open and the read blocks.
\<close>

datatype read_end = Io_EOF | Io_error string | Still_open

text \<open>
  How \<^verbatim>\<open>ReceiveResponse\<close> ends: it met the \<^verbatim>\<open>EOF\<close> marker line and returned, it called
  \<^verbatim>\<open>os.Exit\<close> with a status, it returned because the stream ended or failed, or it is
  blocked waiting for more bytes.
\<close>

datatype recv_outcome =
  Marker_EOF | Os_Exit nat | Stream_EOF | Stream_error string | Blocked_reading

text \<open>
  \<^verbatim>\<open>bufio.Reader.ReadString(delim)\<close> on the bytes \<open>buf\<close> that are still to come: the
  bytes up to and including the first delimiter, and what follows it; \<open>None\<close> when no
  delimiter arrives, in which case Go returns the error of the underlying read.
\<close>

definition ReadString :: "char \<Rightarrow> string \<Rightarrow> (string \<times> string) option" where
  "ReadString delim buf =
     (if delim \<in> set buf
      then Some (takeWhile (\<lambda>c. c \<noteq> delim) buf @ [delim],
                 tl (dropWhile (\<lambda>c. c \<noteq> delim) buf))
      else None)"

fun read_failed :: "read_end \<Rightarrow> recv_outcome" where
  "read_failed Io_EOF = Stream_EOF"
| "read_failed (Io_error e) = Stream_error e"
| "read_failed Still_open = Blocked_reading"

text \<open>
  The loop of \<^verbatim>\<open>ReceiveResponse\<close>: the result is what was printed on the client's
  standard output (\<^verbatim>\<open>fmt.Print(line)\<close>) and how the loop ended. A partial last line
  that comes with a read error is dropped, as in the source.
\<close>

function ReceiveResponse :: "string \<Rightarrow> read_end \<Rightarrow> string \<times> recv_outcome" where
  "ReceiveResponse buf fin =
     (case ReadString CHR 0x0A buf of
        None \<Rightarrow> ([], read_failed fin)
      | Some (line, rest) \<Rightarrow>
          if line = ''EOF\<newline>'' then ([], Marker_EOF)
          else if line = ''TERMINATE\<newline>'' then ([], Os_Exit 9)
          else (case ReceiveResponse rest fin of (printed, r) \<Rightarrow> (line @ printed, r)))"
  by pat_completeness auto
termination
proof (relation "measure (\<lambda>(buf, fin). length buf)")
  fix buf :: string and fin :: read_end and x2 line rest
  assume "ReadString CHR 0x0A buf = Some x2" and "(line, rest) = x2"
  then have mem: "CHR 0x0A \<in> set buf"
    and rest: "rest = tl (dropWhile (\<lambda>c. c \<noteq> CHR 0x0A) buf)"
    by (auto simp: ReadString_def split: if_splits)
  from mem have "dropWhile (\<lambda>c. c \<noteq> CHR 0x0A) buf \<noteq> []" by simp
  then have "length rest < length (dropWhile (\<lambda>c. c \<noteq> CHR 0x0A) buf)"
    unfolding rest by (cases "dropWhile (\<lambda>c. c \<noteq> CHR 0x0A) buf") simp_all
  also have "\<dots> \<le> length buf" by (rule length_dropWhile_le)
  finally show "((rest, fin), (buf, fin)) \<in> measure (\<lambda>(buf, fin). length buf)" by simp
qed simp

declare ReceiveResponse.simps [simp del]

text \<open>The bytes of a list of text lines on the wire: each line followed by its terminator.\<close>

definition wire_lines :: "string list \<Rightarrow> string" where
  "wire_lines ls = concat (map (\<lambda>l. l @ ''\<newline>'') ls)"


subsection \<open>Client: TLS configuration (\<^verbatim>\<open>LoadCertificates\<close> in \<^verbatim>\<open>client.go\<close>)\<close>

text \<open>
  A certificate is reduced to what verification looks at: whose it is, who signed it and
  the host names it is valid for. A pool is the list of certificates of the authorities
  it holds.
\<close>

record certificate =
  subject :: string
  issuer :: string
  dns_names :: "string list"

type_synonym cert_pool = "certificate list"

datatype ClientAuthType =
  NoClientCert | RequestClientCert | RequireAnyClientCert
  | VerifyClientCertIfGiven | RequireAndVerifyClientCert

text \<open>
  The fields of \<^verbatim>\<open>tls.Config\<close> that the two programs set. A field that a composite
  literal leaves out has Go's zero value: \<open>None\<close> for a nil pool, \<open>NoClientCert\<close>,
  \<open>False\<close>.
\<close>

record tls_Config =
  Certificates :: "certificate list"
  RootCAs :: "cert_pool option"
  ClientCAs :: "cert_pool option"
  ClientAuth :: ClientAuthType
  InsecureSkipVerify :: bool

text \<open>
  The client's \<^verbatim>\<open>LoadCertificates\<close>. Its two reads are parameters: the result of
  \<^verbatim>\<open>tls.LoadX509KeyPair\<close> and the result of \<^verbatim>\<open>os.ReadFile(CA_FILE)\<close>, the latter
  already as the certificates that \<^verbatim>\<open>AppendCertsFromPEM\<close> finds in the file (its
  result is not checked by the source, so an empty list is a possible pool).
\<close>

definition LoadCertificates_client ::
  "string + certificate \<Rightarrow> string + certificate list \<Rightarrow> string + tls_Config" where
  "LoadCertificates_client key_pair authority =
     (case key_pair of
        Inl err \<Rightarrow> Inl err
      | Inr cert \<Rightarrow>
          (case authority of
             Inl err \<Rightarrow> Inl err
           | Inr caCertPool \<Rightarrow>
               Inr \<lparr>Certificates = [cert], RootCAs = Some caCertPool, ClientCAs = None,
                    ClientAuth = NoClientCert, InsecureSkipVerify = True\<rparr>))"

text \<open>
  What \<^verbatim>\<open>crypto/tls\<close> does with the certificate a server presents, as its
  documentation of \<^verbatim>\<open>InsecureSkipVerify\<close> states it: when the field is true the client
  accepts any certificate and any host name in it; otherwise the certificate must be
  signed by an authority of \<^verbatim>\<open>RootCAs\<close> and be valid for the host name dialled. A nil
  \<^verbatim>\<open>RootCAs\<close> stands for the host's root set, the parameter \<open>host_roots\<close>.
\<close>

definition signed_by_pool :: "cert_pool \<Rightarrow> certificate \<Rightarrow> bool" where
  "signed_by_pool pool c = (issuer c \<in> set (map subject pool))"

definition client_accepts_server ::
  "cert_pool \<Rightarrow> tls_Config \<Rightarrow> string \<Rightarrow> certificate \<Rightarrow> bool" where
  "client_accepts_server host_roots cfg server_name presented =
     (if InsecureSkipVerify cfg then True
      else signed_by_pool (case RootCAs cfg of None \<Rightarrow> host_roots | Some pool \<Rightarrow> pool) presented
           \<and> server_name \<in> set (dns_names presented))"


subsection \<open>Server: the process spawned for a command (\<^verbatim>\<open>executeCommand\<close>, first half)\<close>

text \<open>
  \<^verbatim>\<open>exec.Cmd\<close> with the fields the source touches. \<^verbatim>\<open>exec.Command(name, arg...)\<close>
  sets \<^verbatim>\<open>Args\<close> to the name followed by the arguments; an empty \<^verbatim>\<open>Dir\<close> means that the
  child runs in the calling process's current directory.
\<close>

record sys_proc_attr =
  Setpgid :: bool

record Cmd =
  Path :: string
  Args :: "string list"
  Dir :: string
  SysProcAttr :: "sys_proc_attr option"

definition exec_Command :: "string \<Rightarrow> string list \<Rightarrow> Cmd" where
  "exec_Command name arg = \<lparr>Path = name, Args = name # arg, Dir = [], SysProcAttr = None\<rparr>"

text \<open>The script that \<^verbatim>\<open>executeCommand\<close> hands to the shell, a constant of the source.\<close>

definition ulimit_script :: string where
  \<open>ulimit_script = ''ulimit -t 5; exec "$@"''\<close>

text \<open>
  \<^verbatim>\<open>executeCommand\<close> builds two commands. \<^verbatim>\<open>cmd\<close> passes the command text to the shell
  as its \<^verbatim>\<open>-c\<close> operand; it is never started, only its \<^verbatim>\<open>SysProcAttr\<close> is read.
  \<^verbatim>\<open>ulimitCmd\<close> is the one on which \<^verbatim>\<open>StdoutPipe\<close>, \<^verbatim>\<open>Start\<close> and \<^verbatim>\<open>Wait\<close> are called.
\<close>

definition cmd :: "string \<Rightarrow> Cmd" where
  "cmd command =
     (exec_Command ''sh'' [''-c'', command])\<lparr>SysProcAttr := Some \<lparr>Setpgid = True\<rparr>\<rparr>"

definition ulimitCmd :: "string \<Rightarrow> Cmd" where
  "ulimitCmd command =
     (exec_Command ''sh'' [''-c'', ulimit_script, ''--'', command])
       \<lparr>SysProcAttr := SysProcAttr (cmd command)\<rparr>"

text \<open>
  The shell's side, from POSIX \<^verbatim>\<open>sh -c command_string [command_name [argument...]]\<close>:
  the operand after \<^verbatim>\<open>-c\<close> is the text the shell parses and runs, the next operand
  becomes \<^verbatim>\<open>$0\<close> and the remaining ones the positional parameters \<^verbatim>\<open>$1\<close>, \<^verbatim>\<open>$2\<close>, ...
\<close>

record sh_invocation =
  command_string :: string
  command_name :: string
  positional :: "string list"

fun sh_c :: "string list \<Rightarrow> sh_invocation option" where
  "sh_c (arg0 # flag # script # operands) =
     (if flag = ''-c''
      then Some \<lparr>command_string = script,
                 command_name = (case operands of [] \<Rightarrow> arg0 | n # _ \<Rightarrow> n),
                 positional = (case operands of [] \<Rightarrow> [] | _ # ps \<Rightarrow> ps)\<rparr>
      else None)"
| "sh_c _ = None"

text \<open>
  What the shell then does, for the two kinds of command string that the source builds.
  In \<open>ulimit_script\<close> the shell sets the CPU limit and replaces itself, by \<^verbatim>\<open>exec\<close>, with
  the utility named by the expansion of \<^verbatim>\<open>"$@"\<close>: the positional parameters, each one
  field, with no field splitting and no further parsing. The first field is the name of
  the utility that is looked up. Any other command string is text that the shell parses
  as a command line; its parsing is not modelled further.
\<close>

datatype sh_action =
  Exec_with_cpu_limit nat "string list"
  | Parse_command_line string

definition sh_run :: "sh_invocation \<Rightarrow> sh_action" where
  "sh_run call =
     (if command_string call = ulimit_script then Exec_with_cpu_limit 5 (positional call)
      else Parse_command_line (command_string call))"

text \<open>What a started \<^verbatim>\<open>exec.Cmd\<close> makes the shell do; \<open>None\<close> when it is not \<^verbatim>\<open>sh -c\<close>.\<close>

definition shell_action :: "Cmd \<Rightarrow> sh_action option" where
  "shell_action c = map_option sh_run (sh_c (Args c))"


subsection \<open>Server: the Service (\<^verbatim>\<open>Server\<close>, \<^verbatim>\<open>Start\<close>, \<^verbatim>\<open>Stop\<close>)\<close>

text \<open>
  A channel that carries no values, as \<^verbatim>\<open>shutdown\<close> does, is open or closed. Go's
  \<^verbatim>\<open>close\<close> panics on a channel that is already closed.
\<close>

datatype chan_state = Chan_open | Chan_closed

datatype go_panic = Close_of_closed_channel

definition close_chan :: "chan_state \<Rightarrow> go_panic + chan_state" where
  "close_chan c = (case c of Chan_open \<Rightarrow> Inr Chan_closed | Chan_closed \<Rightarrow> Inl Close_of_closed_channel)"

datatype listener_state = Listening | Listener_closed

text \<open>
  The \<^verbatim>\<open>Server\<close> struct: the counter of the wait group, the listener and the shutdown
  channel. The hand-off channel \<^verbatim>\<open>connection\<close> is unbuffered and carries no state of
  its own between two operations.
\<close>

record Server =
  wg :: nat
  listener :: listener_state
  shutdown :: chan_state

text \<open>
  \<^verbatim>\<open>NewServer\<close>: the TLS configuration of the server, then the listener. The results of
  the reads and of \<^verbatim>\<open>tls.Listen\<close> are parameters.
\<close>

definition LoadCertificates_server ::
  "string + certificate \<Rightarrow> string + certificate list \<Rightarrow> string + tls_Config" where
  "LoadCertificates_server key_pair authority =
     (case key_pair of
        Inl err \<Rightarrow> Inl err
      | Inr cert \<Rightarrow>
          (case authority of
             Inl err \<Rightarrow> Inl err
           | Inr caCertPool \<Rightarrow>
               Inr \<lparr>Certificates = [cert], RootCAs = None, ClientCAs = Some caCertPool,
                    ClientAuth = RequireAndVerifyClientCert, InsecureSkipVerify = False\<rparr>))"

definition NewServer ::
  "string + certificate \<Rightarrow> string + certificate list \<Rightarrow> string option \<Rightarrow> string + Server" where
  "NewServer key_pair authority listen_err =
     (case LoadCertificates_server key_pair authority of
        Inl err \<Rightarrow> Inl err
      | Inr tlsConfig \<Rightarrow>
          (case listen_err of
             Some err \<Rightarrow> Inl err
           | None \<Rightarrow> Inr \<lparr>wg = 0, listener = Listening, shutdown = Chan_open\<rparr>))"

text \<open>\<^verbatim>\<open>Start\<close> adds the two loops to the wait group and starts them; it does not block.\<close>

definition Start :: "Server \<Rightarrow> Server" where
  "Start s = s\<lparr>wg := wg s + 2\<rparr>"

text \<open>
  The \<^verbatim>\<open>select\<close> at the end of \<^verbatim>\<open>Stop\<close> waits for the wait group and for a timer of one
  second, and takes whichever is ready first: the wait group has reached zero (every
  loop has called \<^verbatim>\<open>wg.Done()\<close>), or the timer has fired with some number of loops still
  running, each loop that has returned having taken one off the counter.
\<close>

datatype stop_wait = Drained | Timed_out nat

text \<open>
  \<^verbatim>\<open>Stop\<close>: \<^verbatim>\<open>close(s.shutdown)\<close>, which panics when the channel is closed already;
  then the listener is closed; then the wait for the loops, bounded by the timer. How
  that wait ends is the parameter \<open>waited\<close>; the result is the Service afterwards and
  what \<^verbatim>\<open>Stop\<close> printed.
\<close>

definition Stop :: "stop_wait \<Rightarrow> Server \<Rightarrow> go_panic + (Server \<times> string list)" where
  "Stop waited s =
     (case close_chan (shutdown s) of
        Inl p \<Rightarrow> Inl p
      | Inr closed \<Rightarrow>
          (let s' = s\<lparr>shutdown := closed, listener := Listener_closed\<rparr>
           in case waited of
                Drained \<Rightarrow> Inr (s'\<lparr>wg := 0\<rparr>, [])
              | Timed_out running \<Rightarrow>
                  Inr (s'\<lparr>wg := min running (wg s)\<rparr>, [''Connection timed out''])))"

text \<open>
  One turn of the loop of \<^verbatim>\<open>AcceptConnections\<close>, begun with the Service in state \<open>s\<close>;
  \<open>arriving\<close> is the connection that the listener has to offer, if any. The \<^verbatim>\<open>select\<close>
  returns when the shutdown channel is closed and calls \<^verbatim>\<open>Accept\<close> otherwise; \<^verbatim>\<open>Accept\<close>
  fails on a closed listener, and the loop goes round again on an error; an accepted
  connection is sent on the hand-off channel.
\<close>

datatype accept_turn = Accept_loop_returns | Accept_failed_again | Hands_off string | Blocked_in_Accept

definition AcceptConnections_turn :: "Server \<Rightarrow> string option \<Rightarrow> accept_turn" where
  "AcceptConnections_turn s arriving =
     (case shutdown s of
        Chan_closed \<Rightarrow> Accept_loop_returns
      | Chan_open \<Rightarrow>
          (case listener s of
             Listener_closed \<Rightarrow> Accept_failed_again
           | Listening \<Rightarrow>
               (case arriving of None \<Rightarrow> Blocked_in_Accept | Some c \<Rightarrow> Hands_off c)))"

text \<open>
  One turn of the loop of \<^verbatim>\<open>handleConnections\<close>: a \<^verbatim>\<open>select\<close> without default between
  the shutdown channel and the hand-off channel, on which \<open>offered\<close> is waiting, if
  anything is. When both are ready Go picks at random (\<open>pick_shutdown\<close>). A received
  connection gets a goroutine of its own running \<^verbatim>\<open>handleConnection\<close>.
\<close>

datatype dispatch_turn = Dispatch_loop_returns | Starts_session string | Blocked_in_select

definition handleConnections_turn :: "Server \<Rightarrow> string option \<Rightarrow> bool \<Rightarrow> dispatch_turn" where
  "handleConnections_turn s offered pick_shutdown =
     (case shutdown s of
        Chan_closed \<Rightarrow>
          (case offered of
             None \<Rightarrow> Dispatch_loop_returns
           | Some c \<Rightarrow> if pick_shutdown then Dispatch_loop_returns else Starts_session c)
      | Chan_open \<Rightarrow>
          (case offered of None \<Rightarrow> Blocked_in_select | Some c \<Rightarrow> Starts_session c))"


subsection \<open>Server: start-up (\<^verbatim>\<open>main\<close>)\<close>

text \<open>
  What the operating system answers during start-up: the two reads behind the
  certificates, \<^verbatim>\<open>tls.Listen\<close>, \<^verbatim>\<open>os.Chdir\<close>, and the directory the server was launched
  from.
\<close>

record startup_env =
  key_pair_file :: "string + certificate"
  ca_file :: "string + certificate list"
  listen_error :: "string option"
  chdir_error :: "string option"
  launch_dir :: string

text \<open>The server process: its current directory and its Service.\<close>

record server_process =
  cwd :: string
  service :: Server

text \<open>
  \<^verbatim>\<open>main\<close> up to the wait for a signal, one statement at a time. \<^verbatim>\<open>log.Fatalf\<close> ends the
  process: the result of a statement is \<open>Inl\<close> with the message then.
\<close>

definition main_NewServer :: "startup_env \<Rightarrow> string + server_process" where
  "main_NewServer env =
     (case NewServer (key_pair_file env) (ca_file env) (listen_error env) of
        Inl err \<Rightarrow> Inl (''Error creating server: '' @ err)
      | Inr s \<Rightarrow> Inr \<lparr>cwd = launch_dir env, service = s\<rparr>)"

definition main_Start :: "server_process \<Rightarrow> server_process" where
  "main_Start p = p\<lparr>service := Start (service p)\<rparr>"

definition main_Chdir :: "startup_env \<Rightarrow> server_process \<Rightarrow> string + server_process" where
  "main_Chdir env p =
     (case chdir_error env of
        Some err \<Rightarrow> Inl (''Error changing working directory: '' @ err)
      | None \<Rightarrow> Inr (p\<lparr>cwd := ''/''\<rparr>))"

text \<open>
  Statements run one after the other, from a state \<open>p\<close>: the result is the states the
  process is in before and after each statement that is reached, in order, and how the
  sequence ends, in the last state or with the fatal message.
\<close>

fun run_statements ::
  "(server_process \<Rightarrow> string + server_process) list \<Rightarrow> server_process
   \<Rightarrow> server_process list \<times> (string + server_process)" where
  "run_statements [] p = ([p], Inr p)"
| "run_statements (stmt # stmts) p =
     (case stmt p of
        Inl msg \<Rightarrow> ([p], Inl msg)
      | Inr p' \<Rightarrow> (case run_statements stmts p' of (ps, r) \<Rightarrow> (p # ps, r)))"

text \<open>
  The statements of \<^verbatim>\<open>main\<close> that follow \<^verbatim>\<open>NewServer\<close>, in the order of the source:
  \<^verbatim>\<open>server.Start()\<close>, then \<^verbatim>\<open>os.Chdir("/")\<close>.
\<close>

definition main_statements ::
  "startup_env \<Rightarrow> (server_process \<Rightarrow> string + server_process) list" where
  "main_statements env = [\<lambda>p. Inr (main_Start p), main_Chdir env]"

definition main_run :: "startup_env \<Rightarrow> server_process list \<times> (string + server_process)" where
  "main_run env =
     (case main_NewServer env of
        Inl msg \<Rightarrow> ([], Inl msg)
      | Inr p \<Rightarrow> run_statements (main_statements env) p)"

text \<open>The states that the process passes through during start-up, and how start-up ends.\<close>

definition main_states :: "startup_env \<Rightarrow> server_process list" where
  "main_states env = fst (main_run env)"

definition main_startup :: "startup_env \<Rightarrow> string + server_process" where
  "main_startup env = snd (main_run env)"

text \<open>
  The loops accept and serve connections from the moment \<^verbatim>\<open>Start\<close> has run until shutdown
  is signalled. A command spawned by a session runs in \<^verbatim>\<open>Dir\<close> when that is set and in the
  current directory of the server process at that moment otherwise.
\<close>

definition serving :: "server_process \<Rightarrow> bool" where
  "serving p = (0 < wg (service p) \<and> shutdown (service p) = Chan_open)"

definition spawn_dir :: "server_process \<Rightarrow> Cmd \<Rightarrow> string" where
  "spawn_dir p c = (if Dir c = [] then cwd p else Dir c)"


subsection \<open>Server: the outcome of one command (\<^verbatim>\<open>executeCommand\<close>, second half)\<close>

text \<open>
  What \<^verbatim>\<open>ulimitCmd.Wait()\<close> returns: nil when the process exited with status 0; an
  \<^verbatim>\<open>*exec.ExitError\<close> when it exited with another status or was killed by a signal (the
  CPU limit kills by signal), with the text of its \<^verbatim>\<open>Error()\<close>, such as
  \<^verbatim>\<open>exit status 1\<close>; or an error of another type.
\<close>

datatype wait_result = Wait_nil | Wait_ExitError string | Wait_other_error string

text \<open>How far the spawn got: each of the two early returns, or a started process.\<close>

datatype spawn_result =
  StdoutPipe_failed string | Start_failed string | Started wait_result

text \<open>
  The goroutine that calls \<^verbatim>\<open>executeCommand\<close>: the writes it makes on the connection
  itself, in order, and the error it returns. The relay of the standard output is done
  by another goroutine and is not among these writes. An error of \<^verbatim>\<open>Wait\<close> that is not an
  \<^verbatim>\<open>*exec.ExitError\<close> falls through to the marker, as in the source. This is
  \<^verbatim>\<open>server/server.go\<close>; the second copy of the server in the repository returns the
  exit error as it is, without the words \<^verbatim>\<open>Command exited with status: \<close> before it,
  and is the same otherwise.
\<close>

definition executeCommand :: "spawn_result \<Rightarrow> string list \<times> string option" where
  "executeCommand r =
     (case r of
        StdoutPipe_failed err \<Rightarrow> ([], Some err)
      | Start_failed err \<Rightarrow> ([], Some err)
      | Started Wait_nil \<Rightarrow> ([''\<newline>EOF\<newline>''], None)
      | Started (Wait_ExitError exitErr) \<Rightarrow>
          ([], Some (''Command exited with status: '' @ exitErr))
      | Started (Wait_other_error err) \<Rightarrow> ([''\<newline>EOF\<newline>''], None))"

text \<open>
  The default branch of \<^verbatim>\<open>handleConnection\<close> for a command other than \<^verbatim>\<open>exit\<close>: the
  writes of \<^verbatim>\<open>executeCommand\<close>, then, when it returned an error, the error line and the
  marker, each by its own \<^verbatim>\<open>conn.Write\<close>.
\<close>

definition invocation_writes :: "spawn_result \<Rightarrow> string list" where
  "invocation_writes r =
     (case executeCommand r of
        (ws, None) \<Rightarrow> ws
      | (ws, Some err) \<Rightarrow>
          ws @ [''Error executing command:'' @ err @ ''\<newline>'', ''EOF\<newline>''])"



subsection \<open>Server: one session (\<^verbatim>\<open>handleConnection\<close>, \<^verbatim>\<open>handleTimeout\<close>)\<close>

text \<open>Times and durations are in nanoseconds, as \<^verbatim>\<open>time.Duration\<close> is.\<close>

definition Second :: nat where
  "Second = 1000000000"

definition TIMEOUT :: nat where
  "TIMEOUT = 100 * Second"

text \<open>
  The \<^verbatim>\<open>select\<close> inside the loop has two receive cases and a \<^verbatim>\<open>default\<close>: the default is
  taken only when neither channel is ready, and when both are ready Go picks one of them
  at random, which is the parameter \<open>pick_shutdown\<close>.
\<close>

datatype select_case = Case_shutdown | Case_ctx_Done | Case_default

definition select_case_of :: "bool \<Rightarrow> bool \<Rightarrow> bool \<Rightarrow> select_case" where
  "select_case_of shutdown_closed ctx_done pick_shutdown =
     (if shutdown_closed \<and> ctx_done
      then (if pick_shutdown then Case_shutdown else Case_ctx_Done)
      else if shutdown_closed then Case_shutdown
      else if ctx_done then Case_ctx_Done
      else Case_default)"

text \<open>
  What \<^verbatim>\<open>scanner.Scan()\<close> delivers, with the moment at which it returns. For a line: its
  text, whether the shutdown channel is closed when the \<^verbatim>\<open>select\<close> runs, the random
  pick, and how the spawn of the command goes if it comes to that. \<open>Scan_false\<close> is a
  \<^verbatim>\<open>Scan()\<close> that returns false, with \<^verbatim>\<open>scanner.Err()\<close>: end of stream or a read error.
\<close>

datatype scan_event =
  Line string bool bool spawn_result
  | Scan_false "string option"

datatype close_reason =
  Client_exit | Session_timeout | Shutdown_seen | Read_ended "string option"

text \<open>
  A session is reading (blocked in \<^verbatim>\<open>Scan\<close>, connection open) or closed: every return
  of \<^verbatim>\<open>handleConnection\<close> runs the deferred \<^verbatim>\<open>conn.Close()\<close>.
\<close>

datatype phase = Reading | Closed close_reason

record session =
  written :: "string list"
  phase :: phase

definition handleTimeout :: "string list" where
  "handleTimeout =
     [''Client session duration exceeded. Disconnecting...\<newline>'', ''TERMINATE\<newline>'']"

text \<open>
  \<^verbatim>\<open>handleConnection\<close> on a session created at \<open>start\<close>, given what \<^verbatim>\<open>Scan\<close> delivers:
  the writes of the handler goroutine on the connection, in order, and the phase reached.
  The context is done from \<open>start + TIMEOUT\<close> on. The handler takes a step only when
  \<^verbatim>\<open>Scan\<close> returns; with nothing more delivered it stays blocked in \<^verbatim>\<open>Scan\<close>.
\<close>

fun handleConnection :: "nat \<Rightarrow> (nat \<times> scan_event) list \<Rightarrow> session" where
  "handleConnection start [] = \<lparr>written = [], phase = Reading\<rparr>"
| "handleConnection start ((now, Scan_false scannerErr) # evs) =
     \<lparr>written = [], phase = Closed (Read_ended scannerErr)\<rparr>"
| "handleConnection start ((now, Line command shutdown_closed pick_shutdown r) # evs) =
     (case select_case_of shutdown_closed (start + TIMEOUT \<le> now) pick_shutdown of
        Case_shutdown \<Rightarrow> \<lparr>written = [], phase = Closed Shutdown_seen\<rparr>
      | Case_ctx_Done \<Rightarrow> \<lparr>written = handleTimeout, phase = Closed Session_timeout\<rparr>
      | Case_default \<Rightarrow>
          if command = ''exit'' then \<lparr>written = [], phase = Closed Client_exit\<rparr>
          else (let s = handleConnection start evs
                in s\<lparr>written := invocation_writes r @ written s\<rparr>))"

text \<open>The session as it stands at the moment \<open>now\<close>: only what \<^verbatim>\<open>Scan\<close> delivered so far counts.\<close>

definition session_at :: "nat \<Rightarrow> nat \<Rightarrow> (nat \<times> scan_event) list \<Rightarrow> session" where
  "session_at start now evs = handleConnection start (takeWhile (\<lambda>(t, e). t \<le> now) evs)"


subsection \<open>Server: the goroutines of one command\<close>

text \<open>
  While a command runs, three activities proceed in parallel: the spawned process, which
  writes its output to the pipe and exits; the goroutine started by \<^verbatim>\<open>go func()\<close>, which
  copies from the pipe to the connection (\<^verbatim>\<open>io.Copy\<close>); and the handler goroutine,
  which is inside \<^verbatim>\<open>ulimitCmd.Wait()\<close> and then makes its own writes. Nothing in the
  source orders the copy goroutine and the handler: there is no channel, wait group or
  join between them. What \<^verbatim>\<open>Wait\<close> does is documented by \<^verbatim>\<open>os/exec\<close>: it returns once
  the process has exited and closes the read end of the pipe of \<^verbatim>\<open>StdoutPipe\<close>.
\<close>

datatype thread = Process | Copier | Handler

datatype writer = By_copier | By_handler

text \<open>
  The copy goroutine is about to read, holds bytes it has read and not yet written, or
  has returned from \<^verbatim>\<open>io.Copy\<close>, with the error if there was one.
\<close>

datatype copy_pc = Copy_read | Copy_write string | Copy_done "string option"

text \<open>
  The handler goroutine is inside \<^verbatim>\<open>Wait\<close>, has writes of this command left to make, or
  is back in \<^verbatim>\<open>scanner.Scan()\<close> for the next line.
\<close>

datatype handler_pc = In_Wait | Writing "string list" | Back_in_Scan

record exec_state =
  todo :: "string list"
  exited :: bool
  pipe :: string
  pipe_closed :: bool
  cpc :: copy_pc
  hpc :: handler_pc
  conn :: "(writer \<times> string) list"

text \<open>
  The state when the handler enters \<^verbatim>\<open>Wait\<close>; \<open>out\<close> is the output of the process, in the
  pieces in which it writes it.
\<close>

definition exec_init :: "string list \<Rightarrow> exec_state" where
  "exec_init out =
     \<lparr>todo = out, exited = False, pipe = [], pipe_closed = False,
      cpc = Copy_read, hpc = In_Wait, conn = []\<rparr>"

text \<open>The process writes its next piece to the pipe, or exits when it has none left.\<close>

definition process_step :: "exec_state \<Rightarrow> exec_state option" where
  "process_step s =
     (case todo s of
        c # cs \<Rightarrow> Some (s\<lparr>todo := cs, pipe := pipe s @ c\<rparr>)
      | [] \<Rightarrow> if exited s then None else Some (s\<lparr>exited := True\<rparr>))"

text \<open>
  \<^verbatim>\<open>io.Copy\<close>: a read takes what the pipe holds, up to the 32 KiB of the buffer; on a
  closed read end it fails, with the error text of \<^verbatim>\<open>os.File.Read\<close> on the pipe; on an
  empty pipe whose writer has exited it meets the end of
  the stream; otherwise it blocks (\<open>None\<close>). A write puts the bytes held on the
  connection. When \<^verbatim>\<open>io.Copy\<close> returns, the deferred \<^verbatim>\<open>outputPipe.Close()\<close> runs.
\<close>

definition copier_step :: "exec_state \<Rightarrow> exec_state option" where
  "copier_step s =
     (case cpc s of
        Copy_read \<Rightarrow>
          if pipe_closed s then Some (s\<lparr>cpc := Copy_done (Some ''read |0: file already closed'')\<rparr>)
          else if pipe s \<noteq> []
          then Some (s\<lparr>cpc := Copy_write (take 32768 (pipe s)), pipe := drop 32768 (pipe s)\<rparr>)
          else if exited s then Some (s\<lparr>cpc := Copy_done None, pipe_closed := True\<rparr>)
          else None
      | Copy_write b \<Rightarrow> Some (s\<lparr>conn := conn s @ [(By_copier, b)], cpc := Copy_read\<rparr>)
      | Copy_done e \<Rightarrow> None)"

text \<open>
  The handler: \<^verbatim>\<open>Wait\<close> blocks until the process has exited, then closes the read end
  of the pipe and returns \<open>w\<close>; the writes that follow are those of
  \<open>invocation_writes\<close>, one \<^verbatim>\<open>conn.Write\<close> at a time; then the loop is back in \<^verbatim>\<open>Scan\<close>.
\<close>

definition handler_step :: "wait_result \<Rightarrow> exec_state \<Rightarrow> exec_state option" where
  "handler_step w s =
     (case hpc s of
        In_Wait \<Rightarrow>
          if exited s
          then Some (s\<lparr>pipe_closed := True, hpc := Writing (invocation_writes (Started w))\<rparr>)
          else None
      | Writing [] \<Rightarrow> Some (s\<lparr>hpc := Back_in_Scan\<rparr>)
      | Writing (b # bs) \<Rightarrow> Some (s\<lparr>conn := conn s @ [(By_handler, b)], hpc := Writing bs\<rparr>)
      | Back_in_Scan \<Rightarrow> None)"

fun step :: "wait_result \<Rightarrow> thread \<Rightarrow> exec_state \<Rightarrow> exec_state option" where
  "step w Process s = process_step s"
| "step w Copier s = copier_step s"
| "step w Handler s = handler_step w s"

text \<open>
  A schedule names the activity that runs next, step by step; an activity that is
  blocked when its turn comes leaves the state as it is.
\<close>

fun run :: "wait_result \<Rightarrow> thread list \<Rightarrow> exec_state \<Rightarrow> exec_state" where
  "run w [] s = s"
| "run w (t # ts) s = run w ts (case step w t s of None \<Rightarrow> s | Some s' \<Rightarrow> s')"

text \<open>
  The bytes on the connection, in the order of the writes; the writes of the handler
  alone; the bytes relayed by the copy goroutine alone.
\<close>

definition wire :: "exec_state \<Rightarrow> string" where
  "wire s = concat (map snd (conn s))"

definition handler_writes :: "exec_state \<Rightarrow> string list" where
  "handler_writes s = map snd (filter (\<lambda>(who, b). who = By_handler) (conn s))"

definition copied :: "exec_state \<Rightarrow> string" where
  "copied s = concat (map snd (filter (\<lambda>(who, b). who = By_copier) (conn s)))"


text \<open>
  What holds in every state that a schedule reaches from \<open>exec_init out\<close>. The bytes
  held by the copy goroutine between its read and its write:
\<close>

definition held :: "exec_state \<Rightarrow> string" where
  "held s = (case cpc s of Copy_write b \<Rightarrow> b | _ \<Rightarrow> [])"

text \<open>The handler's writes so far, and those it has left, make up \<open>invocation_writes\<close>.\<close>

definition handler_progress :: "wait_result \<Rightarrow> exec_state \<Rightarrow> bool" where
  "handler_progress w s =
     (case hpc s of
        In_Wait \<Rightarrow> handler_writes s = []
      | Writing bs \<Rightarrow> handler_writes s @ bs = invocation_writes (Started w)
      | Back_in_Scan \<Rightarrow> handler_writes s = invocation_writes (Started w))"

text \<open>
  No byte of the output is duplicated or reordered on its way (relayed, held, in the
  pipe and still to be written, in this order, they are the output); a process that
  has exited has nothing left to write; the handler leaves \<^verbatim>\<open>Wait\<close> only after the exit
  and with the read end closed; and when the copy has met the end of the stream, the
  connection carries the whole output followed by the handler's writes.
\<close>

definition exec_inv :: "wait_result \<Rightarrow> string list \<Rightarrow> exec_state \<Rightarrow> bool" where
  "exec_inv w out s \<longleftrightarrow>
     copied s @ held s @ pipe s @ concat (todo s) = concat out
     \<and> (exited s \<longrightarrow> todo s = [])
     \<and> (hpc s \<noteq> In_Wait \<longrightarrow> pipe_closed s \<and> exited s)
     \<and> handler_progress w s
     \<and> (cpc s = Copy_done None \<longrightarrow>
          pipe s = [] \<and> exited s \<and> wire s = concat out @ concat (handler_writes s))"


section \<open>Properties\<close>

subsection \<open>The client's response reader\<close>

lemma ReadString_line:
  assumes l: "CHR 0x0A \<notin> set l"
  shows "ReadString CHR 0x0A (l @ CHR 0x0A # rest) = Some (l @ ''\<newline>'', rest)"
proof -
  from l have "takeWhile (\<lambda>c. c \<noteq> CHR 0x0A) (l @ CHR 0x0A # rest) = l"
    by (induction l) auto
  moreover from l
  have "dropWhile (\<lambda>c. c \<noteq> CHR 0x0A) (l @ CHR 0x0A # rest) = CHR 0x0A # rest"
    by (induction l) auto
  ultimately show ?thesis by (simp add: ReadString_def)
qed

lemma ReceiveResponse_plain_line:
  "CHR 0x0A \<notin> set l \<Longrightarrow> l \<noteq> ''EOF'' \<Longrightarrow> l \<noteq> ''TERMINATE'' \<Longrightarrow>
   ReceiveResponse (l @ CHR 0x0A # rest) fin =
     (case ReceiveResponse rest fin of (printed, r) \<Rightarrow> (l @ ''\<newline>'' @ printed, r))"
  by (subst ReceiveResponse.simps) (simp add: ReadString_line)

lemma ReceiveResponse_EOF_line:
  "ReceiveResponse (''EOF\<newline>'' @ rest) fin = ([], Marker_EOF)"
  by (subst ReceiveResponse.simps) (simp add: ReadString_def)

lemma ReceiveResponse_TERMINATE_line:
  "ReceiveResponse (''TERMINATE\<newline>'' @ rest) fin = ([], Os_Exit 9)"
  by (subst ReceiveResponse.simps) (simp add: ReadString_def)


text \<open>
  Claim C9. The client matches the markers textually, with no escaping. Whatever complete
  lines \<open>ls\<close> come first (none of them a marker), the first line equal to \<^verbatim>\<open>EOF\<close> ends
  the read of the response: the lines before it are printed, and whatever follows it
  (\<open>rest\<close>, which may be the remainder of the command's own output and the server's real
  marker) is not part of this response. In the same position a line equal to
  \<^verbatim>\<open>TERMINATE\<close> makes the client process exit with status 9, with only the lines
  before it printed. This holds however the stream ends afterwards.
\<close>

theorem C9_markers_matched_textually:
  assumes "\<forall>l \<in> set ls. CHR 0x0A \<notin> set l \<and> l \<noteq> ''EOF'' \<and> l \<noteq> ''TERMINATE''"
  shows "ReceiveResponse (wire_lines ls @ ''EOF\<newline>'' @ rest) fin
           = (wire_lines ls, Marker_EOF)
       \<and> ReceiveResponse (wire_lines ls @ ''TERMINATE\<newline>'' @ rest) fin
           = (wire_lines ls, Os_Exit 9)"
  using assms
proof (induction ls)
  case Nil
  show ?case
    using ReceiveResponse_EOF_line [of rest fin] ReceiveResponse_TERMINATE_line [of rest fin]
    by (simp add: wire_lines_def)
next
  case (Cons l ls)
  then show ?case by (simp add: wire_lines_def ReceiveResponse_plain_line)
qed

theorem C9_markers_matched_textually_witness:
  "ReceiveResponse (wire_lines [''total 4'', ''notes.txt''] @ ''EOF\<newline>'' @ ''more\<newline>\<newline>EOF\<newline>'') Still_open
       = (''total 4\<newline>notes.txt\<newline>'', Marker_EOF)
   \<and> ReceiveResponse (wire_lines [''total 4'', ''notes.txt''] @ ''TERMINATE\<newline>'' @ ''more\<newline>\<newline>EOF\<newline>'') Still_open
       = (''total 4\<newline>notes.txt\<newline>'', Os_Exit 9)"
  using C9_markers_matched_textually [of "[''total 4'', ''notes.txt'']" "''more\<newline>\<newline>EOF\<newline>''" Still_open]
  by (simp add: wire_lines_def)


subsection \<open>The client's TLS configuration\<close>

lemma LoadCertificates_client_accepts_all:
  assumes "LoadCertificates_client key_pair authority = Inr cfg"
  shows "InsecureSkipVerify cfg" and "client_accepts_server host_roots cfg server_name presented"
proof -
  from assms show "InsecureSkipVerify cfg"
    by (auto simp: LoadCertificates_client_def split: sum.splits)
  then show "client_accepts_server host_roots cfg server_name presented"
    by (simp add: client_accepts_server_def)
qed

text \<open>
  Claim C4 says that the client verifies the server's certificate against the pool of the
  configured authority. The configuration that \<^verbatim>\<open>LoadCertificates\<close> returns carries the
  pool in \<^verbatim>\<open>RootCAs\<close> and sets \<^verbatim>\<open>InsecureSkipVerify\<close>, so the pool is never consulted:
  with the authority \<^verbatim>\<open>Remote Shell CA\<close> as the only trust anchor, a self-signed
  certificate of somebody else, issued for another host, is accepted for \<^verbatim>\<open>localhost\<close>.
  The comment in the source speaks of disabling the check of the host name only.
\<close>

theorem C4_client_accepts_unverified_certificate:
  "LoadCertificates_client
     (Inr \<lparr>subject = ''client'', issuer = ''Remote Shell CA'', dns_names = []\<rparr>)
     (Inr [\<lparr>subject = ''Remote Shell CA'', issuer = ''Remote Shell CA'', dns_names = []\<rparr>])
   = Inr \<lparr>Certificates = [\<lparr>subject = ''client'', issuer = ''Remote Shell CA'', dns_names = []\<rparr>],
          RootCAs = Some [\<lparr>subject = ''Remote Shell CA'', issuer = ''Remote Shell CA'', dns_names = []\<rparr>],
          ClientCAs = None, ClientAuth = NoClientCert, InsecureSkipVerify = True\<rparr>
   \<and> \<not> signed_by_pool
         [\<lparr>subject = ''Remote Shell CA'', issuer = ''Remote Shell CA'', dns_names = []\<rparr>]
         \<lparr>subject = ''intruder'', issuer = ''intruder'', dns_names = [''elsewhere.example'']\<rparr>
   \<and> client_accepts_server []
         \<lparr>Certificates = [\<lparr>subject = ''client'', issuer = ''Remote Shell CA'', dns_names = []\<rparr>],
          RootCAs = Some [\<lparr>subject = ''Remote Shell CA'', issuer = ''Remote Shell CA'', dns_names = []\<rparr>],
          ClientCAs = None, ClientAuth = NoClientCert, InsecureSkipVerify = True\<rparr>
         ''localhost''
         \<lparr>subject = ''intruder'', issuer = ''intruder'', dns_names = [''elsewhere.example'']\<rparr>"
  by (simp add: LoadCertificates_client_def signed_by_pool_def client_accepts_server_def)


subsection \<open>The process spawned for a command\<close>

lemma ulimitCmd_Args:
  "Args (ulimitCmd command) = [''sh'', ''-c'', ulimit_script, ''--'', command]"
  by (simp add: ulimitCmd_def exec_Command_def)

lemma ulimitCmd_execs_one_word:
  "shell_action (ulimitCmd command) = Some (Exec_with_cpu_limit 5 [command])"
  by (simp add: shell_action_def ulimitCmd_Args sh_run_def)

lemma cmd_parses_command:
  "command \<noteq> ulimit_script \<Longrightarrow> shell_action (cmd command) = Some (Parse_command_line command)"
  by (simp add: shell_action_def cmd_def exec_Command_def sh_run_def)

text \<open>
  Claim C1 says that the shell parses and runs the command text as a command line. The
  process that \<^verbatim>\<open>executeCommand\<close> starts is \<^verbatim>\<open>ulimitCmd\<close>: its command string is the
  constant \<open>ulimit_script\<close> and the command text is the positional parameter \<^verbatim>\<open>$1\<close>,
  which \<^verbatim>\<open>exec "$@"\<close> takes as one word, the name of the utility to run. For the text
  \<^verbatim>\<open>echo hello\<close> the shell is asked to run a utility whose name is \<^verbatim>\<open>echo hello\<close>,
  blank included, with no argument; nothing parses the text into \<^verbatim>\<open>echo\<close> and
  \<^verbatim>\<open>hello\<close>. The command that would have the shell parse the text, \<^verbatim>\<open>cmd\<close>, is built
  by the source and never started.
\<close>

theorem C1_command_text_is_one_exec_word:
  "Args (ulimitCmd ''echo hello'') = [''sh'', ''-c'', ulimit_script, ''--'', ''echo hello'']
   \<and> shell_action (ulimitCmd ''echo hello'') = Some (Exec_with_cpu_limit 5 [''echo hello''])
   \<and> shell_action (cmd ''echo hello'') = Some (Parse_command_line ''echo hello'')"
  by (simp add: shell_action_def ulimitCmd_def cmd_def exec_Command_def sh_run_def
      ulimit_script_def)


subsection \<open>The Service: \<^verbatim>\<open>Stop\<close> and the shutdown channel\<close>

lemma Start_keeps_shutdown: "shutdown (Start s) = shutdown s"
  by (simp add: Start_def)

lemma Stop_on_closed: "shutdown s = Chan_closed \<Longrightarrow> Stop waited s = Inl Close_of_closed_channel"
  by (simp add: Stop_def close_chan_def)

lemma Stop_on_open:
  "shutdown s = Chan_open \<Longrightarrow>
   \<exists>s' printed. Stop waited s = Inr (s', printed) \<and> shutdown s' = Chan_closed
     \<and> listener s' = Listener_closed"
  by (cases waited) (simp_all add: Stop_def close_chan_def Let_def)

text \<open>
  Claim C8, as amended. \<^verbatim>\<open>Stop\<close> raises the shutdown signal by a bare
  \<^verbatim>\<open>close(s.shutdown)\<close>. On a Service whose channel is open it does not fault and
  leaves the channel closed (and the listener closed); from then on the channel stays
  closed, since \<^verbatim>\<open>Start\<close> does not touch it and no other operation assigns it. The
  close is not protected against repetition: every further \<^verbatim>\<open>Stop\<close>, whether or not
  \<^verbatim>\<open>Start\<close> ran in between, panics with \<^verbatim>\<open>close of closed channel\<close>.
\<close>

theorem C8_stop_closes_shutdown_without_guard:
  assumes "shutdown s = Chan_open"
  shows "\<exists>s' printed.
           Stop waited s = Inr (s', printed)
           \<and> shutdown s' = Chan_closed
           \<and> shutdown (Start s') = Chan_closed
           \<and> Stop again s' = Inl Close_of_closed_channel
           \<and> Stop again (Start s') = Inl Close_of_closed_channel"
proof -
  from Stop_on_open [OF assms] obtain s' printed
    where stop: "Stop waited s = Inr (s', printed)" and closed: "shutdown s' = Chan_closed"
    by blast
  from closed have "shutdown (Start s') = Chan_closed"
    by (simp add: Start_keeps_shutdown)
  with stop closed show ?thesis
    by (simp add: Stop_on_closed)
qed

theorem C8_stop_closes_shutdown_without_guard_witness:
  "\<exists>s' printed.
     Stop Drained \<lparr>wg = 2, listener = Listening, shutdown = Chan_open\<rparr> = Inr (s', printed)
     \<and> shutdown s' = Chan_closed
     \<and> shutdown (Start s') = Chan_closed
     \<and> Stop (Timed_out 1) s' = Inl Close_of_closed_channel
     \<and> Stop (Timed_out 1) (Start s') = Inl Close_of_closed_channel"
  using C8_stop_closes_shutdown_without_guard
    [of "\<lparr>wg = 2, listener = Listening, shutdown = Chan_open\<rparr>" Drained "Timed_out 1"]
  by simp

text \<open>
  The statement of C8 as written, that the broadcast path of \<^verbatim>\<open>Stop\<close> may run more than
  once without faulting, fails: the Service is stopped once, and the second \<^verbatim>\<open>Stop\<close> on
  the Service that the first one left panics.
\<close>

theorem C8_second_stop_panics:
  "Stop Drained \<lparr>wg = 2, listener = Listening, shutdown = Chan_open\<rparr>
     = Inr (\<lparr>wg = 0, listener = Listener_closed, shutdown = Chan_closed\<rparr>, [])
   \<and> Stop Drained \<lparr>wg = 0, listener = Listener_closed, shutdown = Chan_closed\<rparr>
     = Inl Close_of_closed_channel"
  by (simp add: Stop_def close_chan_def)


subsection \<open>Start-up and the working directory\<close>

lemma ulimitCmd_Dir: "Dir (ulimitCmd command) = []"
  by (simp add: ulimitCmd_def exec_Command_def)

lemma main_NewServer_fresh:
  assumes "main_NewServer env = Inr p0"
  shows "service p0 = \<lparr>wg = 0, listener = Listening, shutdown = Chan_open\<rparr>"
  using assms
  by (auto simp: main_NewServer_def NewServer_def split: sum.splits option.splits)

lemma main_run_cases:
  "main_run env =
     (case main_NewServer env of
        Inl msg \<Rightarrow> ([], Inl msg)
      | Inr p0 \<Rightarrow>
          (case chdir_error env of
             Some err \<Rightarrow>
               ([p0, main_Start p0], Inl (''Error changing working directory: '' @ err))
           | None \<Rightarrow>
               ([p0, main_Start p0, (main_Start p0)\<lparr>cwd := ''/''\<rparr>],
                Inr ((main_Start p0)\<lparr>cwd := ''/''\<rparr>))))"
  by (simp add: main_run_def main_statements_def main_Chdir_def
      split: sum.splits option.splits)

lemma main_startup_Inr:
  assumes "main_startup env = Inr p"
  shows "\<exists>p0. main_NewServer env = Inr p0 \<and> chdir_error env = None
           \<and> p = (main_Start p0)\<lparr>cwd := ''/''\<rparr>"
  using assms
  by (auto simp: main_startup_def main_run_cases split: sum.splits option.splits)

text \<open>
  Once start-up has completed, the process serves with current directory \<^verbatim>\<open>/\<close> and every
  command spawned from then on runs there, since \<^verbatim>\<open>executeCommand\<close> sets no \<^verbatim>\<open>Dir\<close>; and
  when the change of directory fails, start-up ends with a fatal message.
\<close>

lemma main_startup_serves_in_root:
  "(main_startup env = Inr p \<longrightarrow>
      cwd p = ''/'' \<and> serving p \<and> (\<forall>command. spawn_dir p (ulimitCmd command) = ''/''))
   \<and> (chdir_error env = Some err \<longrightarrow> (\<exists>msg. main_startup env = Inl msg))"
proof (intro conjI impI)
  assume ok: "main_startup env = Inr p"
  then obtain p0 where p0: "main_NewServer env = Inr p0"
    and p: "p = (main_Start p0)\<lparr>cwd := ''/''\<rparr>"
    using main_startup_Inr by blast
  from p show "cwd p = ''/''" by simp
  from p main_NewServer_fresh [OF p0] show "serving p"
    by (simp add: serving_def main_Start_def Start_def)
  from p show "\<forall>command. spawn_dir p (ulimitCmd command) = ''/''"
    by (simp add: spawn_dir_def ulimitCmd_Dir)
next
  assume "chdir_error env = Some err"
  then show "\<exists>msg. main_startup env = Inl msg"
    by (simp add: main_startup_def main_run_cases split: sum.splits)
qed

text \<open>
  Claim C10 says that every command of every session runs in \<^verbatim>\<open>/\<close>. \<^verbatim>\<open>main\<close> starts the
  loops one statement before it changes the directory. For a server launched from
  \<^verbatim>\<open>/opt/remote-shell\<close>, the process passes through three states: created, started, and
  moved to \<^verbatim>\<open>/\<close>. In the second the loops run while the current directory is still the
  one of the launch: there the accept loop hands a connection off, the dispatch loop
  starts its session, the session takes up the line \<^verbatim>\<open>pwd\<close> and runs it to its marker,
  and the process spawned for it, which has no \<^verbatim>\<open>Dir\<close> of its own, runs in
  \<^verbatim>\<open>/opt/remote-shell\<close>.
\<close>

theorem C10_loops_serve_before_chdir:
  "main_states
     \<lparr>key_pair_file = Inr \<lparr>subject = ''server'', issuer = ''Remote Shell CA'', dns_names = [''localhost'']\<rparr>,
      ca_file = Inr [\<lparr>subject = ''Remote Shell CA'', issuer = ''Remote Shell CA'', dns_names = []\<rparr>],
      listen_error = None, chdir_error = None, launch_dir = ''/opt/remote-shell''\<rparr>
   = [\<lparr>cwd = ''/opt/remote-shell'',
       service = \<lparr>wg = 0, listener = Listening, shutdown = Chan_open\<rparr>\<rparr>,
      \<lparr>cwd = ''/opt/remote-shell'',
       service = \<lparr>wg = 2, listener = Listening, shutdown = Chan_open\<rparr>\<rparr>,
      \<lparr>cwd = ''/'',
       service = \<lparr>wg = 2, listener = Listening, shutdown = Chan_open\<rparr>\<rparr>]
   \<and> map serving (main_states
     \<lparr>key_pair_file = Inr \<lparr>subject = ''server'', issuer = ''Remote Shell CA'', dns_names = [''localhost'']\<rparr>,
      ca_file = Inr [\<lparr>subject = ''Remote Shell CA'', issuer = ''Remote Shell CA'', dns_names = []\<rparr>],
      listen_error = None, chdir_error = None, launch_dir = ''/opt/remote-shell''\<rparr>)
     = [False, True, True]
   \<and> map (\<lambda>p. spawn_dir p (ulimitCmd ''pwd'')) (filter serving (main_states
     \<lparr>key_pair_file = Inr \<lparr>subject = ''server'', issuer = ''Remote Shell CA'', dns_names = [''localhost'']\<rparr>,
      ca_file = Inr [\<lparr>subject = ''Remote Shell CA'', issuer = ''Remote Shell CA'', dns_names = []\<rparr>],
      listen_error = None, chdir_error = None, launch_dir = ''/opt/remote-shell''\<rparr>))
     = [''/opt/remote-shell'', ''/'']
   \<and> AcceptConnections_turn \<lparr>wg = 2, listener = Listening, shutdown = Chan_open\<rparr>
         (Some ''127.0.0.1:40312'') = Hands_off ''127.0.0.1:40312''
   \<and> handleConnections_turn \<lparr>wg = 2, listener = Listening, shutdown = Chan_open\<rparr>
         (Some ''127.0.0.1:40312'') False = Starts_session ''127.0.0.1:40312''
   \<and> handleConnection 0 [(Second, Line ''pwd'' False False (Started Wait_nil))]
       = \<lparr>written = [''\<newline>EOF\<newline>''], phase = Reading\<rparr>"
  by (simp add: main_states_def main_run_def main_statements_def main_Chdir_def
      main_NewServer_def NewServer_def
      LoadCertificates_server_def main_Start_def Start_def serving_def spawn_dir_def
      ulimitCmd_Dir AcceptConnections_turn_def handleConnections_turn_def
      Second_def TIMEOUT_def select_case_of_def invocation_writes_def executeCommand_def)


subsection \<open>One session\<close>

lemma handleConnection_line_default:
  assumes "\<not> shutdown_closed" "now < start + TIMEOUT" "command \<noteq> ''exit''"
  shows "handleConnection start ((now, Line command shutdown_closed pick r) # evs)
         = (handleConnection start evs)\<lparr>written := invocation_writes r @ written (handleConnection start evs)\<rparr>"
  using assms by (simp add: select_case_of_def Let_def)

lemma handleConnection_line_after_deadline:
  assumes "\<not> shutdown_closed" "start + TIMEOUT \<le> now"
  shows "handleConnection start ((now, Line command shutdown_closed pick r) # evs)
         = \<lparr>written = handleTimeout, phase = Closed Session_timeout\<rparr>"
  using assms by (simp add: select_case_of_def)

lemma timeout_needs_a_line:
  "phase (handleConnection start evs) = Closed Session_timeout \<Longrightarrow>
   \<exists>now command sd pick r. (now, Line command sd pick r) \<in> set evs \<and> start + TIMEOUT \<le> now"
proof (induction start evs rule: handleConnection.induct)
  case (1 start)
  then show ?case by simp
next
  case (2 start now scannerErr evs)
  then show ?case by simp
next
  case (3 start now command shutdown_closed pick_shutdown r evs)
  show ?case
  proof (cases "select_case_of shutdown_closed (start + TIMEOUT \<le> now) pick_shutdown")
    case Case_shutdown
    with 3 show ?thesis by simp
  next
    case Case_ctx_Done
    then have "start + TIMEOUT \<le> now" by (auto simp: select_case_of_def split: if_splits)
    moreover have "(now, Line command shutdown_closed pick_shutdown r)
        \<in> set ((now, Line command shutdown_closed pick_shutdown r) # evs)" by simp
    ultimately show ?thesis by blast
  next
    case Case_default
    show ?thesis
    proof (cases "command = ''exit''")
      case True
      with Case_default "3.prems" show ?thesis by simp
    next
      case False
      with Case_default "3.prems" have "phase (handleConnection start evs) = Closed Session_timeout"
        by (simp add: Let_def)
      with "3.IH" [OF Case_default False] obtain t c sd pk r'
        where "(t, Line c sd pk r') \<in> set evs" and "start + TIMEOUT \<le> t" by blast
      then have "(t, Line c sd pk r') \<in> set ((now, Line command shutdown_closed pick_shutdown r) # evs)"
        and "start + TIMEOUT \<le> t" by simp_all
      then show ?thesis by blast
    qed
  qed
qed

lemma no_terminate_without_line_after_deadline:
  assumes "\<forall>(t, e) \<in> set evs. t < start + TIMEOUT \<or> now < t"
  shows "phase (session_at start now evs) \<noteq> Closed Session_timeout"
proof
  assume "phase (session_at start now evs) = Closed Session_timeout"
  then obtain t command sd pick r 
    where mem: "(t, Line command sd pick r) \<in> set (takeWhile (\<lambda>(t, e). t \<le> now) evs)" and late: "start + TIMEOUT \<le> t"
    unfolding session_at_def using timeout_needs_a_line by blast
  from mem have "(t, Line command sd pick r) \<in> set evs" "t \<le> now"
    by (auto dest: set_takeWhileD)
  with assms late show False by auto
qed


text \<open>
  Claim C3 says that a session whose deadline elapses is told so and closed, also while
  the handler waits for a line. The handler looks at the timer only in the \<^verbatim>\<open>select\<close>
  that follows a successful \<^verbatim>\<open>Scan\<close>, and that \<^verbatim>\<open>select\<close> has a \<^verbatim>\<open>default\<close>: the read
  is not raced against the timer. For a session created at time 0, whose deadline is at
  100 s, looked at after 200 s: with no line at all, and with one command at 30 s and
  silence since, nothing of a notice has been written and the connection is still open;
  and when the client hangs up at 150 s the connection is closed without notice or
  \<^verbatim>\<open>TERMINATE\<close>.
\<close>

theorem C3_idle_session_outlives_deadline:
  "session_at 0 (200 * Second) [] = \<lparr>written = [], phase = Reading\<rparr>
   \<and> session_at 0 (200 * Second) [(30 * Second, Line ''ls'' False False (Started Wait_nil))]
       = \<lparr>written = [''\<newline>EOF\<newline>''], phase = Reading\<rparr>
   \<and> session_at 0 (200 * Second) [(150 * Second, Scan_false None)]
       = \<lparr>written = [], phase = Closed (Read_ended None)\<rparr>"
  by (simp add: session_at_def Second_def TIMEOUT_def select_case_of_def
      invocation_writes_def executeCommand_def)


subsection \<open>Shutdown and the sessions\<close>







subsection \<open>The goroutines of one command\<close>

lemma take_drop_append: "take n xs @ drop n xs @ ys = xs @ ys"
  by (simp flip: append_assoc)

lemma wire_only_copied: "handler_writes s = [] \<Longrightarrow> wire s = copied s"
proof -
  assume h: "handler_writes s = []"
  have "filter (\<lambda>(who, b). who = By_handler) xs = [] \<Longrightarrow>
        filter (\<lambda>(who, b). who = By_copier) xs = xs" for xs :: "(writer \<times> string) list"
  proof (induction xs)
    case Nil then show ?case by simp
  next
    case (Cons x xs)
    obtain who b where x: "x = (who, b)" by (cases x)
    with Cons show ?case by (cases who) (auto split: if_splits)
  qed
  with h show ?thesis by (simp add: handler_writes_def wire_def copied_def)
qed

lemma exec_inv_init: "exec_inv w out (exec_init out)"
  by (simp add: exec_inv_def exec_init_def copied_def held_def handler_progress_def handler_writes_def)

lemma exec_inv_process:
  assumes "exec_inv w out s" "process_step s = Some s'"
  shows "exec_inv w out s'"
  using assms
  by (auto simp: exec_inv_def process_step_def copied_def held_def handler_progress_def
      handler_writes_def wire_def split: list.splits if_splits handler_pc.splits)

lemma exec_inv_copier:
  assumes "exec_inv w out s" "copier_step s = Some s'"
  shows "exec_inv w out s'"
proof (cases "cpc s")
  case Copy_read
  show ?thesis
  proof (cases "pipe_closed s")
    case True
    with Copy_read assms show ?thesis
      by (auto simp: exec_inv_def copier_step_def copied_def held_def handler_progress_def
          handler_writes_def wire_def split: handler_pc.splits)
  next
    case still_open: False
    show ?thesis
    proof (cases "pipe s = []")
      case False
      with still_open Copy_read assms show ?thesis
        by (auto simp: exec_inv_def copier_step_def copied_def held_def handler_progress_def
          handler_writes_def wire_def take_drop_append split: handler_pc.splits)
    next
      case True
      with still_open Copy_read assms have ex: "exited s"
        and s': "s' = s\<lparr>cpc := Copy_done None, pipe_closed := True\<rparr>"
        by (auto simp: copier_step_def split: if_splits)
      from still_open assms(1) have w: "hpc s = In_Wait" by (auto simp: exec_inv_def)
      with assms(1) have "handler_writes s = []" by (simp add: exec_inv_def handler_progress_def)
      then have hw: "handler_writes s = []" and "wire s = copied s" by (simp_all add: wire_only_copied)
      moreover from assms(1) ex True Copy_read have "copied s = concat out"
        by (auto simp: exec_inv_def held_def)
      ultimately have "wire s = concat out @ concat (handler_writes s)" by simp
      with assms(1) ex True Copy_read w show ?thesis unfolding s'
        by (auto simp: exec_inv_def copied_def held_def handler_progress_def
          handler_writes_def wire_def split: handler_pc.splits)
    qed
  qed
next
  case (Copy_write b)
  with assms show ?thesis
    by (auto simp: exec_inv_def copier_step_def copied_def held_def handler_progress_def
          handler_writes_def wire_def split: handler_pc.splits)
next
  case (Copy_done e)
  with assms show ?thesis by (simp add: copier_step_def)
qed

lemma exec_inv_handler:
  assumes "exec_inv w out s" "handler_step w s = Some s'"
  shows "exec_inv w out s'"
proof (cases "hpc s")
  case In_Wait
  with assms show ?thesis
    by (auto simp: exec_inv_def handler_step_def copied_def held_def handler_progress_def
          handler_writes_def wire_def split: if_splits handler_pc.splits)
next
  case (Writing bs)
  with assms show ?thesis
    by (cases bs) (auto simp: exec_inv_def handler_step_def copied_def held_def handler_progress_def
          handler_writes_def wire_def split: handler_pc.splits)
next
  case Back_in_Scan
  with assms show ?thesis by (simp add: handler_step_def)
qed

lemma exec_inv_step: "exec_inv w out s \<Longrightarrow> step w t s = Some s' \<Longrightarrow> exec_inv w out s'"
  by (cases t) (auto intro: exec_inv_process exec_inv_copier exec_inv_handler)

lemma exec_inv_run: "exec_inv w out s \<Longrightarrow> exec_inv w out (run w sched s)"
proof (induction sched arbitrary: s)
  case Nil then show ?case by simp
next
  case (Cons t ts)
  show ?case
  proof (cases "step w t s")
    case None
    with Cons show ?thesis by simp
  next
    case (Some s')
    with Cons.prems have "exec_inv w out s'" by (rule exec_inv_step)
    with Cons.IH Some show ?thesis by simp
  qed
qed


lemma exec_inv_reached: "exec_inv w out (run w sched (exec_init out))"
  by (rule exec_inv_run) (rule exec_inv_init)

lemma run_append: "run w (before @ after) s = run w after (run w before s)"
  by (induction before arbitrary: s) simp_all

lemma relayed_step:
  assumes inv: "exec_inv w out s"
    and rel: "copied s = concat out" "wire s = concat out @ concat (handler_writes s)"
    and st: "step w t s = Some s'"
  shows "copied s' = concat out \<and> wire s' = concat out @ concat (handler_writes s')"
proof -
  from inv rel(1) have empty: "held s = []" "pipe s = []"
    by (auto simp: exec_inv_def)
  show ?thesis
  proof (cases t)
    case Process
    with st rel show ?thesis
      by (auto simp: process_step_def copied_def wire_def handler_writes_def
          split: list.splits if_splits)
  next
    case Copier
    with st rel empty show ?thesis
      by (auto simp: copier_step_def copied_def wire_def handler_writes_def held_def
          split: copy_pc.splits if_splits)
  next
    case Handler
    with st rel show ?thesis
      by (auto simp: handler_step_def copied_def wire_def handler_writes_def
          split: handler_pc.splits list.splits if_splits)
  qed
qed

lemma relayed_run:
  assumes "exec_inv w out s" "copied s = concat out"
    "wire s = concat out @ concat (handler_writes s)"
  shows "wire (run w sched s) = concat out @ concat (handler_writes (run w sched s))"
  using assms
proof (induction sched arbitrary: s)
  case Nil
  then show ?case by simp
next
  case (Cons t ts)
  show ?case
  proof (cases "step w t s")
    case None
    with Cons show ?thesis by simp
  next
    case (Some s')
    from Cons.prems Some have "exec_inv w out s'" by (auto intro: exec_inv_step)
    moreover from Cons.prems Some
    have "copied s' = concat out \<and> wire s' = concat out @ concat (handler_writes s')"
      by (rule relayed_step)
    ultimately show ?thesis using Cons.IH [of s'] Some by simp
  qed
qed

lemma relayed_before_writes:
  assumes "handler_writes (run w before (exec_init out)) = []"
    and "copied (run w before (exec_init out)) = concat out"
  shows "wire (run w (before @ after) (exec_init out))
         = concat out @ concat (handler_writes (run w (before @ after) (exec_init out)))"
proof -
  let ?m = "run w before (exec_init out)"
  have "exec_inv w out ?m" by (rule exec_inv_reached)
  moreover from assms(1) have "wire ?m = copied ?m" by (rule wire_only_copied)
  with assms have "wire ?m = concat out @ concat (handler_writes ?m)" by simp
  ultimately show ?thesis using assms(2) by (simp add: run_append relayed_run)
qed

lemma handler_writes_back_in_Scan:
  assumes "hpc (run w sched (exec_init out)) = Back_in_Scan"
  shows "handler_writes (run w sched (exec_init out)) = invocation_writes (Started w)"
  using exec_inv_reached [of w out sched] assms
  by (simp add: exec_inv_def handler_progress_def)


text \<open>
  Claim C2, as amended. For a command that exits with status 0 and whose whole output the
  copy goroutine has written to the connection before the handler makes its first write
  (the schedule splits into \<open>before\<close>, at whose end all of the output is relayed and the
  handler has written nothing, and \<open>after\<close>): once the handler is back in \<^verbatim>\<open>Scan\<close>, the
  bytes on the connection are the bytes of the standard output, unchanged and in order,
  then one line terminator, then the marker line \<^verbatim>\<open>EOF\<close>; the handler's only write is
  that terminator and marker, so there is no error line. For a command that prints the
  line \<^verbatim>\<open>hello\<close> this is the line \<^verbatim>\<open>hello\<close>, an empty line and the line \<^verbatim>\<open>EOF\<close>.
\<close>

theorem C2_stdout_then_newline_then_EOF:
  assumes "handler_writes (run Wait_nil before (exec_init out)) = []"
    and "copied (run Wait_nil before (exec_init out)) = concat out"
    and "hpc (run Wait_nil (before @ after) (exec_init out)) = Back_in_Scan"
  shows "wire (run Wait_nil (before @ after) (exec_init out)) = concat out @ ''\<newline>EOF\<newline>''
       \<and> handler_writes (run Wait_nil (before @ after) (exec_init out)) = [''\<newline>EOF\<newline>'']"
proof -
  have "handler_writes (run Wait_nil (before @ after) (exec_init out)) = [''\<newline>EOF\<newline>'']"
    using handler_writes_back_in_Scan [OF assms(3)]
    by (simp add: invocation_writes_def executeCommand_def)
  with relayed_before_writes [OF assms(1,2), of after] show ?thesis by simp
qed

theorem C2_stdout_then_newline_then_EOF_witness:
  "handler_writes (run Wait_nil [Process, Copier, Copier, Process] (exec_init [''hello\<newline>''])) = []
   \<and> copied (run Wait_nil [Process, Copier, Copier, Process] (exec_init [''hello\<newline>''])) = ''hello\<newline>''
   \<and> hpc (run Wait_nil ([Process, Copier, Copier, Process] @ [Handler, Copier, Handler, Handler])
          (exec_init [''hello\<newline>''])) = Back_in_Scan
   \<and> cpc (run Wait_nil ([Process, Copier, Copier, Process] @ [Handler, Copier, Handler, Handler])
          (exec_init [''hello\<newline>''])) = Copy_done (Some ''read |0: file already closed'')
   \<and> wire (run Wait_nil ([Process, Copier, Copier, Process] @ [Handler, Copier, Handler, Handler])
          (exec_init [''hello\<newline>''])) = ''hello\<newline>\<newline>EOF\<newline>''
   \<and> handler_writes (run Wait_nil ([Process, Copier, Copier, Process] @ [Handler, Copier, Handler, Handler])
          (exec_init [''hello\<newline>''])) = [''\<newline>EOF\<newline>'']"
  using C2_stdout_then_newline_then_EOF [of "[Process, Copier, Copier, Process]" "[''hello\<newline>'']"
      "[Handler, Copier, Handler, Handler]"]
  by (simp add: exec_init_def process_step_def copier_step_def handler_step_def
      invocation_writes_def executeCommand_def handler_writes_def copied_def wire_def)

text \<open>
  The statement of C2 as written has the marker line follow the output with no byte in
  between. For a command that prints the line \<^verbatim>\<open>hello\<close> and exits with status 0, in the
  schedule where everything happens in order (the process writes and exits, the copy
  relays and meets the end, the handler leaves \<^verbatim>\<open>Wait\<close> and writes), the connection
  carries an empty line between \<^verbatim>\<open>hello\<close> and \<^verbatim>\<open>EOF\<close>.
\<close>

theorem C2_newline_inserted_before_marker:
  "cpc (run Wait_nil [Process, Copier, Copier, Process, Copier, Handler, Handler, Handler]
          (exec_init [''hello\<newline>''])) = Copy_done None
   \<and> hpc (run Wait_nil [Process, Copier, Copier, Process, Copier, Handler, Handler, Handler]
          (exec_init [''hello\<newline>''])) = Back_in_Scan
   \<and> wire (run Wait_nil [Process, Copier, Copier, Process, Copier, Handler, Handler, Handler]
          (exec_init [''hello\<newline>''])) = ''hello\<newline>\<newline>EOF\<newline>''
   \<and> wire (run Wait_nil [Process, Copier, Copier, Process, Copier, Handler, Handler, Handler]
          (exec_init [''hello\<newline>''])) \<noteq> ''hello\<newline>'' @ ''EOF\<newline>''"
  by (simp add: wire_def exec_init_def process_step_def copier_step_def handler_step_def
      invocation_writes_def executeCommand_def)




text \<open>
  Claim C6 says that the marker is written only after the copy of the output has
  completed, so that the handler is back in \<^verbatim>\<open>Scan\<close> only once output and marker are on
  the connection. Nothing joins the copy goroutine before the marker is written. For a
  command that prints the line \<^verbatim>\<open>hello\<close> and exits with status 0: when the copy
  goroutine has read the line and not yet written it as the process exits, the handler
  leaves \<^verbatim>\<open>Wait\<close>, writes the marker and is back in \<^verbatim>\<open>Scan\<close> while the line is still
  held; the line then goes out after the marker. When the copy goroutine has not read yet
  as the process exits, \<^verbatim>\<open>Wait\<close> closes the pipe under it and the marker is all that the
  connection carries.
\<close>

theorem C6_marker_overtakes_output:
  "run Wait_nil [Process, Copier, Process, Handler, Handler, Handler]
       (exec_init [''hello\<newline>''])
     = \<lparr>todo = [], exited = True, pipe = [], pipe_closed = True,
        cpc = Copy_write ''hello\<newline>'', hpc = Back_in_Scan,
        conn = [(By_handler, ''\<newline>EOF\<newline>'')]\<rparr>
   \<and> conn (run Wait_nil [Process, Copier, Process, Handler, Handler, Handler, Copier, Copier]
       (exec_init [''hello\<newline>'']))
     = [(By_handler, ''\<newline>EOF\<newline>''), (By_copier, ''hello\<newline>'')]
   \<and> wire (run Wait_nil [Process, Copier, Process, Handler, Handler, Handler, Copier, Copier]
       (exec_init [''hello\<newline>'']))
     = ''\<newline>EOF\<newline>hello\<newline>''
   \<and> run Wait_nil [Process, Process, Handler, Handler, Handler, Copier]
       (exec_init [''hello\<newline>''])
     = \<lparr>todo = [], exited = True, pipe = ''hello\<newline>'', pipe_closed = True,
        cpc = Copy_done (Some ''read |0: file already closed''), hpc = Back_in_Scan,
        conn = [(By_handler, ''\<newline>EOF\<newline>'')]\<rparr>"
  by (simp add: wire_def exec_init_def process_step_def copier_step_def handler_step_def
      invocation_writes_def executeCommand_def)


end
